theory Spec2Isabelle
  imports Main "HOL-Library.Multiset" "HOL-Library.Sublist"
begin

section \<open>JavaScript values and string helpers\<close>

text \<open>
  The values an option can be bound to. Tokens are \<open>string\<close>s: a \<open>char\<close> is one
  UTF-16 code unit of the source below 256, so the model covers the strings of Latin-1
  characters. A missing property reads as \<open>JUndefined\<close>. \<open>JFunction\<close> stands for any
  function; the model does not tell one function from another.
\<close>

datatype jsval =
    JUndefined | JNull | JBool bool | JNum int | JStr string | JArr "string list" | JFunction

text \<open>JavaScript truthiness, as used by \<open>defaultValue || true\<close>.\<close>

fun truthy :: "jsval \<Rightarrow> bool" where
  "truthy JUndefined = False"
| "truthy JNull = False"
| "truthy (JBool b) = b"
| "truthy (JNum n) = (n \<noteq> 0)"
| "truthy (JStr s) = (s \<noteq> [])"
| "truthy (JArr xs) = True"
| "truthy JFunction = True"

text \<open>\<open>typeof v === 'boolean' || typeof v === 'undefined'\<close>\<close>

fun booleanOrUndefined :: "jsval \<Rightarrow> bool" where
  "booleanOrUndefined JUndefined = True"
| "booleanOrUndefined (JBool b) = True"
| "booleanOrUndefined v = False"

text \<open>\<open>v == null\<close>: true of \<open>null\<close> and \<open>undefined\<close> only.\<close>

fun looseNull :: "jsval \<Rightarrow> bool" where
  "looseNull JUndefined = True"
| "looseNull JNull = True"
| "looseNull v = False"

text \<open>\<open>s.indexOf(sub) >= 0\<close>\<close>

fun includesStr :: "string \<Rightarrow> string \<Rightarrow> bool" where
  "includesStr sub [] = (sub = [])"
| "includesStr sub (c # cs) = (take (length sub) (c # cs) = sub \<or> includesStr sub cs)"

text \<open>\<open>s.replace(/^p/, r)\<close> for a literal prefix \<open>p\<close>.\<close>

definition replacePrefix :: "string \<Rightarrow> string \<Rightarrow> string \<Rightarrow> string" where
  "replacePrefix p r s = (if take (length p) s = p then r @ drop (length p) s else s)"

text \<open>\<open>flags.split(/[ ,|]+/)\<close>: fields between maximal runs of separators; a leading or
  trailing run leaves an empty field, and the empty string gives one empty field.\<close>

definition isFlagSep :: "char \<Rightarrow> bool" where
  "isFlagSep c = (c = CHR '' '' \<or> c = CHR '','' \<or> c = CHR ''|'')"

fun splitFlagsGo :: "string \<Rightarrow> bool \<Rightarrow> string \<Rightarrow> string list" where
  "splitFlagsGo cur inSep [] = [rev cur]"
| "splitFlagsGo cur inSep (c # cs) =
     (if isFlagSep c
      then (if inSep then splitFlagsGo cur True cs else rev cur # splitFlagsGo [] True cs)
      else splitFlagsGo (c # cur) False cs)"

definition splitFlags :: "string \<Rightarrow> string list" where
  "splitFlags s = splitFlagsGo [] False s"

text \<open>\<open>s.split('-')\<close>\<close>

fun splitDash :: "string \<Rightarrow> string list" where
  "splitDash [] = [[]]"
| "splitDash (c # cs) =
     (if c = CHR ''-'' then [] # splitDash cs
      else (c # hd (splitDash cs)) # tl (splitDash cs))"

section \<open>Errors\<close>

text \<open>
  Every error path of the source ends in \<open>_exit(exitCode, code, message)\<close>, which builds
  a \<open>CommanderError\<close> and never returns (the exit callback throws or the process
  exits): the model returns the error instead. \<open>TypeError\<close> is the exception the
  runtime throws on \<open>undefined.toUpperCase()\<close> in \<open>camelcase\<close> and on
  \<open>path.extname(undefined)\<close> in \<open>parse\<close>.

  Two more values mark the places where a run leaves what this model describes; the
  source raises nothing there and goes on. \<open>MemberClash key\<close>: an option value is
  written under a key that names a member of the object holding the values, or read
  under a key that names a member other than a method (see \<open>getOptionValue\<close> below).
  \<open>OutsideLatin1\<close>: \<open>toUpperCase\<close> gives a character above 255.
\<close>

datatype error =
    CommanderError (exitCode: int) (code: string) (message: string)
  | TypeError
  | MemberClash string
  | OutsideLatin1

section \<open>Camel case\<close>

text \<open>
  \<open>c.toUpperCase()\<close> on one character below 256: the letters a to z and the Latin-1
  letters from 224 to 254 (but not the division sign 247) move down by 32, the sharp s
  (223) becomes \<open>SS\<close>, the micro sign (181) and y with diaeresis (255) have their
  capitals above 255 (\<open>None\<close>), every other character is its own upper case.
\<close>

definition toUpperCase :: "char \<Rightarrow> string option" where
  "toUpperCase c =
     (let n = (of_char c :: nat)
      in if (97 \<le> n \<and> n \<le> 122) \<or> (224 \<le> n \<and> n \<le> 254 \<and> n \<noteq> 247)
         then Some [char_of (n - 32)]
         else if n = 223 then Some ''SS''
         else if n = 181 \<or> n = 255 then None
         else Some [c])"

text \<open>
  \<open>camelcase(flag)\<close>: \<open>flag.split('-').reduce((str, word) => str + word[0].toUpperCase()
  + word.slice(1))\<close>. An empty word after the first makes \<open>word[0]\<close> undefined and the
  call throws a TypeError.
\<close>

fun camelStep :: "error + string \<Rightarrow> string \<Rightarrow> error + string" where
  "camelStep (Inl e) word = Inl e"
| "camelStep (Inr str) [] = Inl TypeError"
| "camelStep (Inr str) (c # cs) =
     (case toUpperCase c of None \<Rightarrow> Inl OutsideLatin1 | Some u \<Rightarrow> Inr (str @ u @ cs))"

definition camelcase :: "string \<Rightarrow> error + string" where
  "camelcase flag = foldl camelStep (Inr (hd (splitDash flag))) (tl (splitDash flag))"

section \<open>Option descriptors\<close>

record cli_option =
  flags :: string
  required :: bool
  optional :: bool
  mandatory :: bool
  negate :: bool
  short :: "string option"
  long :: string
  description :: string
  defaultValue :: jsval

text \<open>The constructor \<open>new Option(flags, description)\<close>.\<close>

definition newOption :: "string \<Rightarrow> string \<Rightarrow> cli_option" where
  "newOption fl desc =
     (let parts = splitFlags fl;
          hasShort = (length parts > 1 \<and>
                      \<not> (case parts ! 1 of [] \<Rightarrow> False | c # cs \<Rightarrow> c = CHR ''['' \<or> c = CHR ''<''))
      in \<lparr> flags = fl,
           required = (CHR ''<'' \<in> set fl),
           optional = (CHR ''['' \<in> set fl),
           mandatory = False,
           negate = includesStr ''-no-'' fl,
           short = (if hasShort then Some (hd parts) else None),
           long = (if hasShort then parts ! 1 else hd parts),
           description = desc,
           defaultValue = JUndefined \<rparr>)"

text \<open>\<open>Option.name()\<close>, \<open>Option.attributeName()\<close> and \<open>Option.is(arg)\<close>.\<close>

definition optName :: "cli_option \<Rightarrow> string" where
  "optName opt = replacePrefix ''--'' [] (long opt)"

definition attributeName :: "cli_option \<Rightarrow> error + string" where
  "attributeName opt = camelcase (replacePrefix ''no-'' [] (optName opt))"

definition optIs :: "cli_option \<Rightarrow> string \<Rightarrow> bool" where
  "optIs opt arg = (short opt = Some arg \<or> long opt = arg)"

section \<open>Error messages\<close>

text \<open>The error methods of \<open>Command\<close>, each a call of \<open>_exit\<close>.\<close>

definition quoted :: "string \<Rightarrow> string" where
  "quoted s = [CHR 0x27] @ s @ [CHR 0x27]"

definition missingArgument :: "string \<Rightarrow> error" where
  "missingArgument nm =
     CommanderError 1 ''commander.missingArgument'' (''error: missing required argument '' @ quoted nm)"

definition optionMissingArgument :: "cli_option \<Rightarrow> error" where
  "optionMissingArgument opt =
     CommanderError 1 ''commander.optionMissingArgument''
       (''error: option '' @ quoted (flags opt) @ '' argument missing'')"

definition missingMandatoryOptionValue :: "cli_option \<Rightarrow> error" where
  "missingMandatoryOptionValue opt =
     CommanderError 1 ''commander.missingMandatoryOptionValue''
       (''error: required option '' @ quoted (flags opt) @ '' not specified'')"

definition unknownOptionError :: "string \<Rightarrow> error" where
  "unknownOptionError flag =
     CommanderError 1 ''commander.unknownOption'' (''error: unknown option '' @ quoted flag)"

definition unknownCommandError :: "string \<Rightarrow> error" where
  "unknownCommandError a =
     CommanderError 1 ''commander.unknownCommand'' (''error: unknown command '' @ quoted a)"

definition variadicArgNotLast :: "string \<Rightarrow> error" where
  "variadicArgNotLast nm =
     CommanderError 1 ''commander.variadicArgNotLast''
       (''error: variadic arguments must be last '' @ quoted nm)"

section \<open>Commands: options, listeners and the value store\<close>

text \<open>
  A listener registered by \<open>_optionEx\<close> closes over the attribute name, \<open>option.negate\<close>,
  the coercion function \<open>fn\<close> (or null) and the variable \<open>defaultValue\<close>; the listener
  registered by \<open>version\<close> closes over the version string.
\<close>

datatype listener =
    OptionListener string bool "(jsval \<Rightarrow> jsval \<Rightarrow> jsval) option" jsval
  | VersionListener string

record argDetails =
  argRequired :: bool
  argName :: string
  argVariadic :: bool

text \<open>
  The fields of a \<open>Command\<close> other than its children. \<open>listeners\<close> are the listeners
  registered with \<open>this.on\<close>, in order; \<open>expectedArgs\<close>, \<open>cmdName\<close> and \<open>cmdAlias\<close>
  are \<open>_args\<close>, \<open>_name\<close> and \<open>_alias\<close>; \<open>actionHandler\<close> and
  \<open>executableHandler\<close> say whether the handler is set; \<open>starListenerCount\<close> is
  \<open>listenerCount('command:*')\<close>. The other fields carry the name of their source field
  without the underscore.

  \<open>optionValues\<close> holds the option values: the properties that \<open>_setOptionValue\<close> has
  put on the command object itself when \<open>storeOptionsAsProperties\<close> is true (the
  constructor's default), the properties of the object \<open>_optionValues\<close> otherwise. An
  absent key reads as \<open>undefined\<close>.
\<close>

record cmd_data =
  options :: "cli_option list"
  listeners :: "(string \<times> listener) list"
  optionValues :: "string \<rightharpoonup> jsval"
  storeOptionsAsProperties :: bool
  allowUnknownOption :: bool
  expectedArgs :: "argDetails list"
  cmdName :: string
  cmdAlias :: "string option"
  actionHandler :: bool
  executableHandler :: bool
  defaultCommandName :: "string option"
  hasImplicitHelpCommand :: "bool option"
  helpShortFlag :: string
  helpLongFlag :: string
  helpCommandName :: string
  starListenerCount :: nat

text \<open>
  The names under which the command object already has a property of its own or an
  inherited one: the fields assigned anywhere in the source (the last three on the
  exported root command only), the methods of \<open>Command\<close>, the fields and methods an
  \<open>EventEmitter\<close> of the Node.js runtime has, and the members of \<open>Object.prototype\<close>,
  which the plain object \<open>_optionValues\<close> inherits too.
\<close>

definition commandFields :: "string list" where
  "commandFields =
     [''commands'', ''options'', ''parent'', ''_allowUnknownOption'', ''_args'', ''rawArgs'',
      ''args'', ''_name'', ''_optionValues'', ''_storeOptionsAsProperties'',
      ''_passCommandToAction'', ''_actionResults'', ''_actionHandler'', ''_executableHandler'',
      ''_executableFile'', ''_defaultCommandName'', ''_exitCallback'', ''_alias'', ''_noHelp'',
      ''_helpFlags'', ''_helpDescription'', ''_helpShortFlag'', ''_helpLongFlag'',
      ''_hasImplicitHelpCommand'', ''_helpCommandName'', ''_helpCommandnameAndArgs'',
      ''_helpCommandDescription'', ''_description'', ''_argsDescription'', ''_usage'',
      ''_version'', ''_versionOptionName'', ''runningCommand'',
      ''Command'', ''Option'', ''CommanderError'']"

definition commandMethods :: "string list" where
  "commandMethods =
     [''command'', ''addCommand'', ''arguments'', ''addHelpCommand'',
      ''_lazyHasImplicitHelpCommand'', ''_parseExpectedArgs'', ''exitOverride'', ''_exit'',
      ''action'', ''_optionEx'', ''option'', ''requiredOption'', ''allowUnknownOption'',
      ''storeOptionsAsProperties'', ''passCommandToAction'', ''_setOptionValue'',
      ''_getOptionValue'', ''parse'', ''parseAsync'', ''_executeSubCommand'',
      ''_dispatchSubcommand'', ''_parseCommand'', ''_findCommand'', ''_findOption'',
      ''_checkForMissingMandatoryOptions'', ''parseOptions'', ''opts'', ''missingArgument'',
      ''optionMissingArgument'', ''missingMandatoryOptionValue'', ''unknownOption'',
      ''unknownCommand'', ''variadicArgNotLast'', ''version'', ''description'', ''alias'',
      ''usage'', ''name'', ''prepareCommands'', ''largestCommandLength'',
      ''largestOptionLength'', ''largestArgLength'', ''padWidth'', ''optionHelp'',
      ''commandHelp'', ''helpInformation'', ''outputHelp'', ''helpOption'', ''help'',
      ''_helpAndError'']"

definition emitterFields :: "string list" where
  "emitterFields = [''_events'', ''_eventsCount'', ''_maxListeners'', ''domain'']"

definition emitterMethods :: "string list" where
  "emitterMethods =
     [''setMaxListeners'', ''getMaxListeners'', ''emit'', ''addListener'', ''on'',
      ''prependListener'', ''once'', ''prependOnceListener'', ''removeListener'', ''off'',
      ''removeAllListeners'', ''listeners'', ''rawListeners'', ''listenerCount'',
      ''eventNames'']"

definition objectMethods :: "string list" where
  "objectMethods =
     [''constructor'', ''__defineGetter__'', ''__defineSetter__'', ''__lookupGetter__'',
      ''__lookupSetter__'', ''hasOwnProperty'', ''isPrototypeOf'', ''propertyIsEnumerable'',
      ''toString'', ''toLocaleString'', ''valueOf'']"

text \<open>
  The object in which this command keeps its option values is the command itself when
  \<open>_storeOptionsAsProperties\<close> is true (the constructor's default), and the plain
  object \<open>_optionValues\<close> otherwise. \<open>storeMethods\<close> are the names under which that
  object has a method, \<open>storeMembers\<close> all the names under which it has a member (the
  accessor \<open>__proto__\<close> is a member that is not a method).
\<close>

definition storeMethods :: "cmd_data \<Rightarrow> string list" where
  "storeMethods self =
     (if storeOptionsAsProperties self then commandMethods @ emitterMethods @ objectMethods
      else objectMethods)"

definition storeMembers :: "cmd_data \<Rightarrow> string list" where
  "storeMembers self =
     (if storeOptionsAsProperties self then commandFields @ emitterFields else [])
     @ [''__proto__''] @ storeMethods self"

text \<open>
  \<open>_setOptionValue(key, value)\<close> and \<open>_getOptionValue(key)\<close>: \<open>this[key]\<close> when
  \<open>_storeOptionsAsProperties\<close> is true, \<open>this._optionValues[key]\<close> otherwise. Under a
  key that names no member, the object behaves as a map. Under a key that names a
  member, the read returns the member and the write replaces it.

  On the command object a method reads as \<open>JFunction\<close>. The value of any other member
  depends on what the object has been through, and after a write the command's own code
  finds the written value where it expects its field or method; the model does not
  follow the source there: the read of a member that is not a method, and the write of
  any member, is \<open>MemberClash key\<close>.

  On the plain object \<open>_optionValues\<close> a written property hides the inherited method
  of the same name and nothing uses those methods, so the object is a map whose unset
  keys read as the inherited method or as \<open>undefined\<close>; only the accessor
  \<open>__proto__\<close> is \<open>MemberClash\<close>.
\<close>

definition setOptionValue :: "cmd_data \<Rightarrow> string \<Rightarrow> jsval \<Rightarrow> error + cmd_data" where
  "setOptionValue self key v =
     (if (storeOptionsAsProperties self \<and> key \<in> set (storeMembers self)) \<or> key = ''__proto__''
      then Inl (MemberClash key)
      else Inr (self\<lparr>optionValues := (optionValues self)(key \<mapsto> v)\<rparr>))"

definition getOptionValue :: "cmd_data \<Rightarrow> string \<Rightarrow> error + jsval" where
  "getOptionValue self key =
     (if storeOptionsAsProperties self
      then (if key \<in> set (storeMethods self) then Inr JFunction
            else if key \<in> set (storeMembers self) then Inl (MemberClash key)
            else Inr (case optionValues self key of None \<Rightarrow> JUndefined | Some v \<Rightarrow> v))
      else (if key = ''__proto__'' then Inl (MemberClash key)
            else Inr (case optionValues self key of
                        None \<Rightarrow> if key \<in> set (storeMethods self) then JFunction else JUndefined
                      | Some v \<Rightarrow> v)))"

text \<open>\<open>_findOption(arg)\<close>: the first registered option that \<open>is(arg)\<close>.\<close>

definition findOption :: "cmd_data \<Rightarrow> string \<Rightarrow> cli_option option" where
  "findOption self arg = find (\<lambda>opt. optIs opt arg) (options self)"

text \<open>The third argument of \<open>option()\<close>: a function, a RegExp (its \<open>exec\<close> result
  \<open>m[0]\<close> on the value, if it matches), or any other value, which is then the default.
  A third argument that is a function is written \<open>FnFunction\<close>, with what it
  computes; \<open>FnOther JFunction\<close> is the encoding of no call.\<close>

datatype fn_arg =
    FnFunction "jsval \<Rightarrow> jsval \<Rightarrow> jsval"
  | FnRegExp "jsval \<Rightarrow> string option"
  | FnOther jsval

fun coercionOf :: "fn_arg \<Rightarrow> (jsval \<Rightarrow> jsval \<Rightarrow> jsval) option" where
  "coercionOf (FnFunction f) = Some f"
| "coercionOf (FnRegExp rx) = Some (\<lambda>val def. case rx val of Some m \<Rightarrow> JStr m | None \<Rightarrow> def)"
| "coercionOf (FnOther v) = None"

fun defaultOf :: "fn_arg \<Rightarrow> jsval \<Rightarrow> jsval" where
  "defaultOf (FnOther v) dflt = v"
| "defaultOf f dflt = dflt"

fun isBoolean :: "jsval \<Rightarrow> bool" where
  "isBoolean (JBool b) = True"
| "isBoolean v = False"

text \<open>
  \<open>_optionEx(config, flags, description, fn, defaultValue)\<close>, shared by \<open>option\<close> and
  \<open>requiredOption\<close>: preassign the default, register the option, register its listener.
\<close>

definition optionEx ::
  "bool \<Rightarrow> string \<Rightarrow> string \<Rightarrow> fn_arg \<Rightarrow> jsval \<Rightarrow> cmd_data \<Rightarrow> error + cmd_data" where
  "optionEx configMandatory fl desc fnArg dflt self =
     (let option = (newOption fl desc)\<lparr>mandatory := configMandatory\<rparr>;
          oname = optName option
      in case attributeName option of
           Inl e \<Rightarrow> Inl e
         | Inr name \<Rightarrow>
             (let fn = coercionOf fnArg;
                  dflt0 = defaultOf fnArg dflt;
                  pre = (negate option \<or> optional option \<or> required option \<or> isBoolean dflt0)
              in case (if pre \<and> negate option
                       then (if findOption self (replacePrefix ''--no-'' ''--'' (long option)) \<noteq> None
                             then getOptionValue self name else Inr (JBool True))
                       else Inr dflt0) of
                   Inl e \<Rightarrow> Inl e
                 | Inr dflt1 \<Rightarrow>
                     (let assign = (pre \<and> dflt1 \<noteq> JUndefined);
                          option1 = (if assign then option\<lparr>defaultValue := dflt1\<rparr> else option)
                      in case (if assign then setOptionValue self name dflt1 else Inr self) of
                           Inl e \<Rightarrow> Inl e
                         | Inr self1 \<Rightarrow>
                             Inr (self1\<lparr>options := options self1 @ [option1],
                                        listeners := listeners self1 @
                                          [(''option:'' @ oname,
                                            OptionListener name (negate option) fn dflt1)]\<rparr>))))"

text \<open>\<open>version(str, flags, description)\<close> with \<open>flags\<close> given.\<close>

definition version :: "string \<Rightarrow> string \<Rightarrow> string \<Rightarrow> cmd_data \<Rightarrow> cmd_data" where
  "version str fl desc self =
     (let versionOption = newOption fl desc;
          versionOptionName = (if drop 2 (long versionOption) = [] then ''version''
                               else drop 2 (long versionOption))
      in self\<lparr>options := options self @ [versionOption],
               listeners := listeners self @ [(''option:'' @ versionOptionName, VersionListener str)]\<rparr>)"

text \<open>The body of the listener, called with the value of the occurrence.\<close>

fun runListener :: "listener \<Rightarrow> jsval \<Rightarrow> cmd_data \<Rightarrow> error + cmd_data" where
  "runListener (OptionListener name neg fn dflt) val self =
     (case getOptionValue self name of
        Inl e \<Rightarrow> Inl e
      | Inr cur \<Rightarrow>
          (let val1 = (case fn of
                         Some f \<Rightarrow>
                           if val \<noteq> JNull then f val (if cur = JUndefined then dflt else cur)
                           else val
                       | None \<Rightarrow> val)
           in if booleanOrUndefined cur
              then (if looseNull val1
                    then setOptionValue self name
                           (if neg then JBool False else if truthy dflt then dflt else JBool True)
                    else setOptionValue self name val1)
              else if val1 \<noteq> JNull
                   then setOptionValue self name (if neg then JBool False else val1)
                   else Inr self))"
| "runListener (VersionListener str) val self = Inl (CommanderError 0 ''commander.version'' str)"

text \<open>\<open>emit(event, val)\<close>: the listeners of the event run in registration order.\<close>

fun emitTo :: "(string \<times> listener) list \<Rightarrow> string \<Rightarrow> jsval \<Rightarrow> cmd_data \<Rightarrow> error + cmd_data" where
  "emitTo [] ev val self = Inr self"
| "emitTo ((e, l) # ls) ev val self =
     (if e = ev
      then (case runListener l val self of
              Inl err \<Rightarrow> Inl err
            | Inr self' \<Rightarrow> emitTo ls ev val self')
      else emitTo ls ev val self)"

definition emit :: "string \<Rightarrow> jsval \<Rightarrow> cmd_data \<Rightarrow> error + cmd_data" where
  "emit ev val self = emitTo (listeners self) ev val self"

text \<open>A new \<open>Command(name)\<close>.\<close>

definition newCommand :: "string \<Rightarrow> cmd_data" where
  "newCommand nm =
     \<lparr> options = [], listeners = [], optionValues = Map.empty,
       storeOptionsAsProperties = True, allowUnknownOption = False,
       expectedArgs = [], cmdName = nm, cmdAlias = None, actionHandler = False,
       executableHandler = False, defaultCommandName = None, hasImplicitHelpCommand = None,
       helpShortFlag = ''-h'', helpLongFlag = ''--help'', helpCommandName = ''help'',
       starListenerCount = 0 \<rparr>"

section \<open>The tokenizer: parseOptions\<close>

text \<open>
  The local variables of \<open>parseOptions\<close> and the command it mutates. \<open>dest\<close> is a
  reference to one of the two result arrays. \<open>st_emitted\<close> records the effect
  \<open>this.emit(`option:${option.name()}`, value)\<close>: every event with its value, in order
  (a boolean occurrence is emitted with no value, which the listener reads as
  \<open>undefined\<close>).
\<close>

datatype dest = DestOperands | DestUnknown

record po_state =
  st_self :: cmd_data
  st_operands :: "string list"
  st_unknown :: "string list"
  st_dest :: dest
  st_emitted :: "(string \<times> jsval) list"

text \<open>One pass of the loop body ends in \<open>continue\<close> (or falls through to the next
  iteration) with a new queue, in \<open>break\<close>, or in an error.\<close>

datatype step_result = Continue po_state "string list" | Break po_state | Abort error

definition maybeOption :: "string \<Rightarrow> bool" where
  "maybeOption arg = (length arg > 1 \<and> hd arg = CHR ''-'')"

text \<open>\<open>dest.push(...xs)\<close>\<close>

definition pushDest :: "po_state \<Rightarrow> string list \<Rightarrow> po_state" where
  "pushDest st xs =
     (case st_dest st of
        DestOperands \<Rightarrow> st\<lparr>st_operands := st_operands st @ xs\<rparr>
      | DestUnknown \<Rightarrow> st\<lparr>st_unknown := st_unknown st @ xs\<rparr>)"

definition emitOption :: "cli_option \<Rightarrow> jsval \<Rightarrow> po_state \<Rightarrow> error + po_state" where
  "emitOption opt val st =
     (case emit (''option:'' @ optName opt) val (st_self st) of
        Inl e \<Rightarrow> Inl e
      | Inr c \<Rightarrow> Inr (st\<lparr>st_self := c,
                         st_emitted := st_emitted st @ [(''option:'' @ optName opt, val)]\<rparr>))"

definition continueWith :: "error + po_state \<Rightarrow> string list \<Rightarrow> step_result" where
  "continueWith r args = (case r of Inl e \<Rightarrow> Abort e | Inr st \<Rightarrow> Continue st args)"

text \<open>A recognised option: dispatch on its arity.\<close>

definition stepKnown :: "cli_option \<Rightarrow> po_state \<Rightarrow> string list \<Rightarrow> step_result" where
  "stepKnown option st args =
     (if required option then
        (case args of
           [] \<Rightarrow> Abort (optionMissingArgument option)
         | v # args' \<Rightarrow> continueWith (emitOption option (JStr v) st) args')
      else if optional option then
        (if args \<noteq> [] \<and> \<not> maybeOption (hd args)
         then continueWith (emitOption option (JStr (hd args)) st) (tl args)
         else continueWith (emitOption option JNull st) args)
      else continueWith (emitOption option JUndefined st) args)"

text \<open>Combined options after a single dash: \<open>arg.length > 2 && arg[0] === '-' && arg[1] !== '-'\<close>
  and \<open>-${arg[1]}\<close> is registered.\<close>

definition comboOption :: "cmd_data \<Rightarrow> string \<Rightarrow> cli_option option" where
  "comboOption self arg =
     (if length arg > 2 \<and> arg ! 0 = CHR ''-'' \<and> arg ! 1 \<noteq> CHR ''-''
      then findOption self [CHR ''-'', arg ! 1] else None)"

definition stepCombo :: "cli_option \<Rightarrow> po_state \<Rightarrow> string \<Rightarrow> string list \<Rightarrow> step_result" where
  "stepCombo option st arg args =
     (if required option \<or> optional option
      then continueWith (emitOption option (JStr (drop 2 arg)) st) args
      else continueWith (emitOption option JUndefined st) ((CHR ''-'' # drop 2 arg) # args))"

text \<open>\<open>/^--[^=]+=/.test(arg)\<close> and \<open>arg.indexOf('=')\<close>\<close>

definition longWithValue :: "string \<Rightarrow> bool" where
  "longWithValue arg =
     (take 2 arg = ''--'' \<and> takeWhile (\<lambda>c. c \<noteq> CHR ''='') (drop 2 arg) \<noteq> []
      \<and> dropWhile (\<lambda>c. c \<noteq> CHR ''='') (drop 2 arg) \<noteq> [])"

definition indexOfEq :: "string \<Rightarrow> nat" where
  "indexOfEq arg = length (takeWhile (\<lambda>c. c \<noteq> CHR ''='') arg)"

definition longValueOption :: "cmd_data \<Rightarrow> string \<Rightarrow> cli_option option" where
  "longValueOption self arg =
     (if longWithValue arg
      then (case findOption self (take (indexOfEq arg) arg) of
              None \<Rightarrow> None
            | Some option \<Rightarrow> if required option \<or> optional option then Some option else None)
      else None)"

text \<open>The loop body for the token \<open>arg\<close> just shifted off the queue \<open>args\<close>.\<close>

definition parseOptionsStep :: "po_state \<Rightarrow> string \<Rightarrow> string list \<Rightarrow> step_result" where
  "parseOptionsStep st arg args =
     (if arg = ''--''
      then Break (pushDest (if st_dest st = DestUnknown then pushDest st [arg] else st) args)
      else case (if maybeOption arg then findOption (st_self st) arg else None) of
        Some option \<Rightarrow> stepKnown option st args
      | None \<Rightarrow>
         (case comboOption (st_self st) arg of
            Some option \<Rightarrow> stepCombo option st arg args
          | None \<Rightarrow>
             (case longValueOption (st_self st) arg of
                Some option \<Rightarrow>
                  continueWith (emitOption option (JStr (drop (indexOfEq arg + 1) arg)) st) args
              | None \<Rightarrow>
                  Continue (pushDest (if maybeOption arg then st\<lparr>st_dest := DestUnknown\<rparr> else st)
                                     [arg]) args)))"

text \<open>Every pass shortens the queue, counted in characters plus one per token: the
  re-injected remainder of a cluster is one character shorter than the token it came from.\<close>

definition queueSize :: "string list \<Rightarrow> nat" where
  "queueSize args = sum_list (map (\<lambda>a. Suc (length a)) args)"

lemma continueWith_Continue:
  "continueWith r args = Continue st' args' \<Longrightarrow> args' = args"
  by (auto simp: continueWith_def split: sum.splits)

lemma stepKnown_decreases:
  "stepKnown option st args = Continue st' args' \<Longrightarrow> queueSize args' \<le> queueSize args"
  by (cases args)
     (auto simp: stepKnown_def queueSize_def split: if_splits dest!: continueWith_Continue)

lemma stepCombo_decreases:
  "stepCombo option st arg args = Continue st' args' \<Longrightarrow> length arg > 2 \<Longrightarrow>
   queueSize args' < queueSize (arg # args)"
  by (auto simp: stepCombo_def queueSize_def split: if_splits dest!: continueWith_Continue)

lemma comboOption_length: "comboOption self arg = Some option \<Longrightarrow> length arg > 2"
  by (auto simp: comboOption_def split: if_splits)

lemma parseOptionsStep_decreases:
  "parseOptionsStep st arg args = Continue st' args' \<Longrightarrow>
   queueSize args' < queueSize (arg # args)"
proof -
  assume step: "parseOptionsStep st arg args = Continue st' args'"
  have base: "queueSize args < queueSize (arg # args)"
    by (simp add: queueSize_def)
  show ?thesis
  proof (cases "arg = ''--''")
    case True
    with step show ?thesis by (simp add: parseOptionsStep_def)
  next
    case notSep: False
    show ?thesis
    proof (cases "if maybeOption arg then findOption (st_self st) arg else None")
      case (Some option)
      with step notSep have "stepKnown option st args = Continue st' args'"
        by (simp add: parseOptionsStep_def)
      from stepKnown_decreases[OF this] base show ?thesis by simp
    next
      case noKnown: None
      show ?thesis
      proof (cases "comboOption (st_self st) arg")
        case (Some option)
        with step notSep noKnown have "stepCombo option st arg args = Continue st' args'"
          by (simp add: parseOptionsStep_def)
        from stepCombo_decreases[OF this comboOption_length[OF Some]] show ?thesis .
      next
        case noCombo: None
        show ?thesis
        proof (cases "longValueOption (st_self st) arg")
          case (Some option)
          with step notSep noKnown noCombo
          have "continueWith (emitOption option (JStr (drop (indexOfEq arg + 1) arg)) st) args
                = Continue st' args'"
            by (simp add: parseOptionsStep_def)
          from continueWith_Continue[OF this] base show ?thesis by simp
        next
          case None
          with step notSep noKnown noCombo have "args' = args"
            by (simp add: parseOptionsStep_def)
          with base show ?thesis by simp
        qed
      qed
    qed
  qed
qed

text \<open>\<open>while (args.length) { const arg = args.shift(); ... }\<close>\<close>

function parseOptionsLoop :: "po_state \<Rightarrow> string list \<Rightarrow> error + po_state" where
  "parseOptionsLoop st [] = Inr st"
| "parseOptionsLoop st (arg # args) =
     (case parseOptionsStep st arg args of
        Abort e \<Rightarrow> Inl e
      | Break st' \<Rightarrow> Inr st'
      | Continue st' args' \<Rightarrow> parseOptionsLoop st' args')"
  by pat_completeness auto
termination
  by (relation "measure (\<lambda>(st, args). queueSize args)")
     (auto dest: parseOptionsStep_decreases)

text \<open>\<open>parseOptions(argv)\<close>: the loop runs on the copy \<open>argv.slice()\<close>; the result carries
  \<open>operands\<close>, \<open>unknown\<close> and the command with its updated option values.\<close>

definition parseOptions :: "cmd_data \<Rightarrow> string list \<Rightarrow> error + po_state" where
  "parseOptions self argv =
     parseOptionsLoop \<lparr> st_self = self, st_operands = [], st_unknown = [],
                        st_dest = DestOperands, st_emitted = [] \<rparr> argv"

section \<open>The tokenizer over a heap of arrays\<close>

text \<open>
  JavaScript arrays are shared mutable objects: \<open>argv\<close>, \<open>args\<close>, \<open>operands\<close>,
  \<open>unknown\<close> and \<open>dest\<close> are references. Here the heap is the list of all arrays, a
  reference is an index into it, and \<open>[]\<close> or \<open>slice()\<close> allocate a new array at the
  end. \<open>shift\<close>, \<open>unshift\<close> and \<open>push\<close> update the array a reference points to, and
  \<open>dest === unknown\<close> compares references. A loop on aliased references need not end,
  so the loop is a partial function: \<open>None\<close> is a run that never returns.
\<close>

type_synonym heap = "string list list"

record hp_state =
  hp_heap :: heap
  hp_args :: nat
  hp_operands :: nat
  hp_unknown :: nat
  hp_dest :: nat
  hp_self :: cmd_data
  hp_emitted :: "(string \<times> jsval) list"













section \<open>The command tree and its resolver\<close>

text \<open>
  A command owns its children; the \<open>parent\<close> back-reference of the source is the list
  of ancestors (closest first) that the resolver passes down, each in the state its own
  \<open>parseOptions\<close> left it in.
\<close>

datatype command = Command (cmdData: cmd_data) (commands: "command list")

text \<open>\<open>_findCommand(name)\<close>: \<open>undefined\<close> for a missing or empty name, else the first
  child whose name or alias is \<open>name\<close>.\<close>

definition findCommand :: "command list \<Rightarrow> string option \<Rightarrow> command option" where
  "findCommand cs nm =
     (case nm of
        None \<Rightarrow> None
      | Some n \<Rightarrow>
          if n = [] then None
          else find (\<lambda>cmd. cmdName (cmdData cmd) = n \<or> cmdAlias (cmdData cmd) = Some n) cs)"

text \<open>\<open>xs[0]\<close>, \<open>undefined\<close> on the empty array.\<close>

definition firstOf :: "'a list \<Rightarrow> 'a option" where
  "firstOf xs = (case xs of [] \<Rightarrow> None | x # _ \<Rightarrow> Some x)"

text \<open>\<open>_checkForMissingMandatoryOptions\<close>: \<open>cmd.options.forEach\<close> for one command, then
  the walk \<open>for (var cmd = this; cmd; cmd = cmd.parent)\<close> over the chain.\<close>

fun checkMandatoryOptions :: "cmd_data \<Rightarrow> cli_option list \<Rightarrow> error + unit" where
  "checkMandatoryOptions cmd [] = Inr ()"
| "checkMandatoryOptions cmd (anOption # rest) =
     (if mandatory anOption
      then (case attributeName anOption of
              Inl e \<Rightarrow> Inl e
            | Inr key \<Rightarrow>
                (case getOptionValue cmd key of
                   Inl e \<Rightarrow> Inl e
                 | Inr v \<Rightarrow>
                     if v = JUndefined then Inl (missingMandatoryOptionValue anOption)
                     else checkMandatoryOptions cmd rest))
      else checkMandatoryOptions cmd rest)"

fun checkForMissingMandatoryOptions :: "cmd_data list \<Rightarrow> error + unit" where
  "checkForMissingMandatoryOptions [] = Inr ()"
| "checkForMissingMandatoryOptions (cmd # parents) =
     (case checkMandatoryOptions cmd (options cmd) of
        Inl e \<Rightarrow> Inl e
      | Inr u \<Rightarrow> checkForMissingMandatoryOptions parents)"

text \<open>The three ways help ends the run. \<open>pec\<close> is \<open>process.exitCode || 0\<close>.\<close>

definition helpExit :: "int \<Rightarrow> error" where
  "helpExit pec = CommanderError pec ''commander.help'' ''(outputHelp)''"

definition helpAndError :: error where
  "helpAndError = CommanderError 1 ''commander.help'' ''(outputHelp)''"

definition helpDisplayed :: error where
  "helpDisplayed = CommanderError 0 ''commander.helpDisplayed'' ''(outputHelp)''"

text \<open>\<open>outputHelpIfRequested(cmd, args)\<close> exits when \<open>args.find(...)\<close> is truthy.\<close>

definition helpRequested :: "cmd_data \<Rightarrow> string list \<Rightarrow> bool" where
  "helpRequested cmd args =
     (case find (\<lambda>arg. arg = helpLongFlag cmd \<or> arg = helpShortFlag cmd) args of
        None \<Rightarrow> False
      | Some helpOption \<Rightarrow> helpOption \<noteq> [])"

definition lazyHasImplicitHelpCommand :: "cmd_data \<Rightarrow> command list \<Rightarrow> bool" where
  "lazyHasImplicitHelpCommand self children =
     (case hasImplicitHelpCommand self of
        Some b \<Rightarrow> b
      | None \<Rightarrow> children \<noteq> [] \<and> \<not> actionHandler self \<and> findCommand children (Some ''help'') = None)"

text \<open>The array handed to the action handler: strings, the array a variadic argument
  collects, and holes.\<close>

datatype arg_val = ArgStr string | ArgArr "arg_val list" | ArgHole

text \<open>\<open>args[i] == null\<close> and \<open>args[i] = v\<close> (which pads a short array with holes).\<close>

definition argIsNull :: "arg_val list \<Rightarrow> nat \<Rightarrow> bool" where
  "argIsNull args i = (i \<ge> length args \<or> args ! i = ArgHole)"

definition setIndex :: "arg_val list \<Rightarrow> nat \<Rightarrow> arg_val \<Rightarrow> arg_val list" where
  "setIndex args i v =
     (if i < length args then args[i := v]
      else args @ replicate (i - length args) ArgHole @ [v])"

text \<open>\<open>this._args.forEach(function(arg, i) {...})\<close> on the copy \<open>args\<close>; \<open>n\<close> is
  \<open>self._args.length\<close>.\<close>

fun bindArgs :: "argDetails list \<Rightarrow> nat \<Rightarrow> nat \<Rightarrow> arg_val list \<Rightarrow> error + arg_val list" where
  "bindArgs [] i n args = Inr args"
| "bindArgs (arg # rest) i n args =
     (if argRequired arg \<and> argIsNull args i then Inl (missingArgument (argName arg))
      else if argVariadic arg then
        (if i \<noteq> n - 1 then Inl (variadicArgNotLast (argName arg))
         else bindArgs rest (Suc i) n (setIndex (take i args) i (ArgArr (drop i args))))
      else bindArgs rest (Suc i) n args)"

text \<open>
  What a run of the resolver ends in when it does not abort: the action handler called
  with its array, an executable subcommand handed to the launcher, the \<open>command:*\<close> event,
  or nothing at all. Each carries the chain of commands (terminal first, root last).
\<close>

datatype outcome =
    ActionInvoked "cmd_data list" "arg_val list"
  | SubCommandExecuted "cmd_data list" string "string list"
  | CommandStarEmitted "cmd_data list" "string list" "string list"
  | NoAction "cmd_data list"

text \<open>One level either finishes or hands over to a child with new operands and unknown.\<close>

datatype level_result =
    Done outcome
  | Recurse cmd_data command "string list" "string list"

text \<open>\<open>_dispatchSubcommand(commandName, operands, unknown)\<close>; an executable subcommand
  runs the mandatory check of \<open>this\<close> first.\<close>

definition dispatchSubcommand ::
  "cmd_data list \<Rightarrow> cmd_data \<Rightarrow> command list \<Rightarrow> string option \<Rightarrow> string list \<Rightarrow> string list
   \<Rightarrow> error + level_result" where
  "dispatchSubcommand ancestors self children commandName ops unk =
     (case findCommand children commandName of
        None \<Rightarrow> Inl helpAndError
      | Some subCommand \<Rightarrow>
          if executableHandler (cmdData subCommand)
          then (case checkForMissingMandatoryOptions (self # ancestors) of
                  Inl e \<Rightarrow> Inl e
                | Inr u \<Rightarrow> Inr (Done (SubCommandExecuted (self # ancestors)
                                        (cmdName (cmdData subCommand)) (ops @ unk))))
          else Inr (Recurse self subCommand ops unk))"

definition truthyName :: "string option \<Rightarrow> bool" where
  "truthyName nm = (case nm of None \<Rightarrow> False | Some n \<Rightarrow> n \<noteq> [])"

text \<open>The last branch of \<open>_parseCommand\<close>: no child, no help command, no default command.\<close>

definition terminalLevel ::
  "cmd_data list \<Rightarrow> cmd_data \<Rightarrow> command list \<Rightarrow> string list \<Rightarrow> string list
   \<Rightarrow> error + level_result" where
  "terminalLevel ancestors self children ops unk =
     (if children \<noteq> [] \<and> ops @ unk = [] \<and> \<not> actionHandler self
         \<and> \<not> truthyName (defaultCommandName self)
      then Inl helpAndError
      else if helpRequested self unk then Inl helpDisplayed
      else case checkForMissingMandatoryOptions (self # ancestors) of
        Inl e \<Rightarrow> Inl e
      | Inr u \<Rightarrow>
          if unk \<noteq> [] \<and> \<not> allowUnknownOption self then Inl (unknownOptionError (hd unk))
          else if actionHandler self then
            (case bindArgs (expectedArgs self) 0 (length (expectedArgs self))
                    (map ArgStr (ops @ unk)) of
               Inl e \<Rightarrow> Inl e
             | Inr args \<Rightarrow> Inr (Done (ActionInvoked (self # ancestors) args)))
          else if ops \<noteq> [] then
            (if findCommand children (Some ''*'') \<noteq> None
             then dispatchSubcommand ancestors self children (Some ''*'') ops unk
             else if starListenerCount self \<noteq> 0
             then Inr (Done (CommandStarEmitted (self # ancestors) ops unk))
             else if children \<noteq> [] then Inl (unknownCommandError (hd (ops @ unk)))
             else Inr (Done (NoAction (self # ancestors))))
          else if children \<noteq> [] then Inl helpAndError
          else Inr (Done (NoAction (self # ancestors))))"

text \<open>The body of \<open>_parseCommand(operands, unknown)\<close> up to the call into a child.\<close>

definition parseCommandLevel ::
  "int \<Rightarrow> cmd_data list \<Rightarrow> command \<Rightarrow> string list \<Rightarrow> string list \<Rightarrow> error + level_result" where
  "parseCommandLevel pec ancestors cmd operands0 unknown0 =
     (case parseOptions (cmdData cmd) unknown0 of
        Inl e \<Rightarrow> Inl e
      | Inr parsed \<Rightarrow>
          (let self = st_self parsed;
               children = commands cmd;
               ops = operands0 @ st_operands parsed;
               unk = st_unknown parsed
           in if findCommand children (firstOf ops) \<noteq> None
              then dispatchSubcommand ancestors self children (firstOf ops) (drop 1 ops) unk
              else if lazyHasImplicitHelpCommand self children
                      \<and> firstOf ops = Some (helpCommandName self)
              then (if length ops = 1 then Inl (helpExit pec)
                    else dispatchSubcommand ancestors self children (Some (ops ! 1)) []
                           [helpLongFlag self])
              else if truthyName (defaultCommandName self)
              then (if helpRequested self unk then Inl helpDisplayed
                    else dispatchSubcommand ancestors self children (defaultCommandName self) ops unk)
              else terminalLevel ancestors self children ops unk))"

lemma findCommand_in_set: "findCommand cs nm = Some c \<Longrightarrow> c \<in> set cs"
  by (auto simp: findCommand_def find_Some_iff split: option.splits if_splits)

lemma dispatchSubcommand_child:
  "dispatchSubcommand ancestors self children nm ops unk = Inr (Recurse self' sub ops' unk')
   \<Longrightarrow> sub \<in> set children"
  by (auto simp: dispatchSubcommand_def split: option.splits if_splits sum.splits
           dest: findCommand_in_set)

lemma terminalLevel_child:
  "terminalLevel ancestors self children ops unk = Inr (Recurse self' sub ops' unk')
   \<Longrightarrow> sub \<in> set children"
  by (auto simp: terminalLevel_def split: if_splits sum.splits dest: dispatchSubcommand_child)

lemma parseCommandLevel_child:
  "parseCommandLevel pec ancestors cmd operands0 unknown0 = Inr (Recurse self' sub ops' unk')
   \<Longrightarrow> sub \<in> set (commands cmd)"
  by (auto simp: parseCommandLevel_def Let_def split: sum.splits if_splits
           dest: dispatchSubcommand_child terminalLevel_child)

lemma child_smaller: "sub \<in> set (commands cmd) \<Longrightarrow> size sub < size cmd"
  by (cases cmd) (auto simp: less_Suc_eq_le dest: size_list_estimation'[where f = size, OF _ order_refl])

text \<open>\<open>_parseCommand(operands, unknown)\<close>: recursion into a child is
  \<open>subCommand._parseCommand(operands, unknown)\<close> with \<open>this\<close> as its parent.\<close>

function parseCommand ::
  "int \<Rightarrow> cmd_data list \<Rightarrow> command \<Rightarrow> string list \<Rightarrow> string list \<Rightarrow> error + outcome" where
  "parseCommand pec ancestors cmd operands0 unknown0 =
     (case parseCommandLevel pec ancestors cmd operands0 unknown0 of
        Inl e \<Rightarrow> Inl e
      | Inr (Done out) \<Rightarrow> Inr out
      | Inr (Recurse self sub ops unk) \<Rightarrow> parseCommand pec (self # ancestors) sub ops unk)"
  by pat_completeness auto
termination
  by (relation "measure (\<lambda>(pec, ancestors, cmd, ops, unk). size cmd)")
     (auto dest!: parseCommandLevel_child child_smaller)

text \<open>
  \<open>parse(argv)\<close> on the root: \<open>this._name = this._name || path.basename(argv[1],
  path.extname(argv[1]))\<close>, then \<open>this._parseCommand([], argv.slice(2))\<close>. The two
  functions of the runtime's \<open>path\<close> module depend on the platform and come in as the
  parameter \<open>scriptName\<close>; they are called only when the root has no name, and
  \<open>path.extname\<close> throws a TypeError on \<open>undefined\<close>, which is what \<open>argv[1]\<close> is
  when \<open>argv\<close> has fewer than two elements.
\<close>

definition parse ::
  "int \<Rightarrow> (string \<Rightarrow> string) \<Rightarrow> command \<Rightarrow> string list \<Rightarrow> error + outcome" where
  "parse pec scriptName root argv =
     (if cmdName (cmdData root) \<noteq> [] then parseCommand pec [] root [] (drop 2 argv)
      else if length argv < 2 then Inl TypeError
      else parseCommand pec []
             (Command ((cmdData root)\<lparr>cmdName := scriptName (argv ! 1)\<rparr>) (commands root))
             [] (drop 2 argv))"

section \<open>Relating the heap run to the run on lists\<close>


definition absState :: "hp_state \<Rightarrow> po_state" where
  "absState s =
     \<lparr> st_self = hp_self s, st_operands = hp_heap s ! hp_operands s,
       st_unknown = hp_heap s ! hp_unknown s,
       st_dest = (if hp_dest s = hp_unknown s then DestUnknown else DestOperands),
       st_emitted = hp_emitted s \<rparr>"





section \<open>Vocabulary of the resolver's properties\<close>

text \<open>
  A mandatory option with no value in its command's store; the order in which the sweep
  visits the options of a chain; commands whose mandatory options all have a canonical
  key that the model can read (no member of the object holding the values other than a
  method); and the condition under which \<open>_parseCommand\<close> takes its last branch.
\<close>

definition unsetMandatory :: "cmd_data \<Rightarrow> cli_option \<Rightarrow> bool" where
  "unsetMandatory cmd opt =
     (mandatory opt \<and>
      (case attributeName opt of
         Inl e \<Rightarrow> False
       | Inr key \<Rightarrow> getOptionValue cmd key = Inr JUndefined))"

definition sweepOrder :: "cmd_data list \<Rightarrow> (cmd_data \<times> cli_option) list" where
  "sweepOrder chain = concat (map (\<lambda>cmd. map (Pair cmd) (options cmd)) chain)"

definition keyedMandatory :: "cmd_data \<Rightarrow> bool" where
  "keyedMandatory cmd =
     list_all (\<lambda>opt. mandatory opt \<longrightarrow>
                     (case attributeName opt of
                        Inl e \<Rightarrow> False
                      | Inr key \<Rightarrow> \<not> isl (getOptionValue cmd key)))
              (options cmd)"



section \<open>Accounting for tokens\<close>







section \<open>Example commands\<close>

text \<open>\<open>option('-p, --pepper', 'add pepper').option('-C, --chdir <path>', 'change the working
  directory')\<close> and \<open>option('-p, --pepper', 'add pepper').option('-x, --extra <val>', 'extra')\<close>\<close>

definition pepperCommand :: cmd_data where
  "pepperCommand =
     projr (optionEx False ''-C, --chdir <path>'' ''change the working directory''
              (FnOther JUndefined) JUndefined
       (projr (optionEx False ''-p, --pepper'' ''add pepper'' (FnOther JUndefined) JUndefined
                 (newCommand ''prog''))))"


definition initialState :: "cmd_data \<Rightarrow> po_state" where
  "initialState self =
     \<lparr> st_self = self, st_operands = [], st_unknown = [], st_dest = DestOperands,
       st_emitted = [] \<rparr>"







text \<open>A root without options and a child \<open>sub\<close> that has an action handler.\<close>

definition subTree :: command where
  "subTree = Command (newCommand ''prog'') [Command ((newCommand ''sub'')\<lparr>actionHandler := True\<rparr>) []]"

section \<open>Properties of the value store\<close>

lemma storeMethods_other_fields [simp]:
  "storeMethods (self\<lparr>options := os\<rparr>) = storeMethods self"
  "storeMethods (self\<lparr>listeners := ls\<rparr>) = storeMethods self"
  "storeMethods (self\<lparr>optionValues := ov\<rparr>) = storeMethods self"
  by (simp_all add: storeMethods_def)

lemma storeMembers_other_fields [simp]:
  "storeMembers (self\<lparr>options := os\<rparr>) = storeMembers self"
  "storeMembers (self\<lparr>listeners := ls\<rparr>) = storeMembers self"
  "storeMembers (self\<lparr>optionValues := ov\<rparr>) = storeMembers self"
  by (simp_all add: storeMembers_def)


lemma storeMembers_cong:
  "storeOptionsAsProperties b = storeOptionsAsProperties a \<Longrightarrow>
   storeMembers b = storeMembers a \<and> storeMethods b = storeMethods a"
  by (simp add: storeMembers_def storeMethods_def)

lemma getOptionValue_other_fields [simp]:
  "getOptionValue (self\<lparr>options := os\<rparr>) key = getOptionValue self key"
  "getOptionValue (self\<lparr>listeners := ls\<rparr>) key = getOptionValue self key"
  by (simp_all add: getOptionValue_def)






lemma setOptionValue_fields:
  "setOptionValue self key v = Inr self' \<Longrightarrow>
   options self' = options self \<and> listeners self' = listeners self \<and>
   storeOptionsAsProperties self' = storeOptionsAsProperties self"
  by (auto simp: setOptionValue_def split: if_splits)




section \<open>Properties of option registration\<close>

lemma attributeName_mandatory [simp]: "attributeName (opt\<lparr>mandatory := m\<rparr>) = attributeName opt"
  by (simp add: attributeName_def optName_def)

lemma optName_update [simp]:
  "optName (opt\<lparr>mandatory := m\<rparr>) = optName opt"
  "optName (opt\<lparr>defaultValue := d\<rparr>) = optName opt"
  by (simp_all add: optName_def)



lemma optionEx_attributeName:
  "optionEx m fl desc fnArg dflt self = Inr self' \<Longrightarrow>
   \<exists>name. attributeName (newOption fl desc) = Inr name"
  by (cases "attributeName (newOption fl desc)") (auto simp: optionEx_def Let_def)


section \<open>Properties of the value binder\<close>




section \<open>Properties of negation options\<close>













section \<open>Properties of the tokenizer\<close>


lemma runListener_options:
  "runListener l val self = Inr self' \<Longrightarrow> options self' = options self \<and> listeners self' = listeners self"
proof (cases l)
  case (OptionListener name neg fn dflt)
  assume r: "runListener l val self = Inr self'"
  show ?thesis
  proof (cases "getOptionValue self name")
    case (Inl e)
    with r OptionListener show ?thesis by simp
  next
    case (Inr cur)
    with r OptionListener have "(\<exists>v. setOptionValue self name v = Inr self') \<or> self' = self"
      by (auto simp: Let_def split: if_splits)
    then show ?thesis by (auto dest: setOptionValue_fields)
  qed
next
  case (VersionListener str)
  assume "runListener l val self = Inr self'"
  with VersionListener show ?thesis by simp
qed

lemma emitTo_options:
  "emitTo ls ev val self = Inr self' \<Longrightarrow> options self' = options self \<and> listeners self' = listeners self"
proof (induction ls arbitrary: self)
  case Nil
  then show ?case by simp
next
  case (Cons a ls)
  obtain e l where a: "a = (e, l)" by (cases a)
  show ?case
  proof (cases "e = ev")
    case True
    with Cons.prems a obtain s1 where r: "runListener l val self = Inr s1" and e: "emitTo ls ev val s1 = Inr self'"
      by (auto split: sum.splits)
    from Cons.IH[OF e] runListener_options[OF r] show ?thesis by simp
  next
    case False
    with Cons a show ?thesis by simp
  qed
qed

lemma emitOption_Inr:
  assumes "emitOption opt val st = Inr st'"
  shows "options (st_self st') = options (st_self st)"
    and "st_operands st' = st_operands st" and "st_unknown st' = st_unknown st"
    and "st_dest st' = st_dest st"
    and "st_emitted st' = st_emitted st @ [(''option:'' @ optName opt, val)]"
  using assms
  by (auto simp: emitOption_def emit_def split: sum.splits dest: emitTo_options)




text \<open>
  C4: when the loop meets the literal \<open>--\<close>, whatever its state, it stops: with \<open>dest\<close>
  already \<open>unknown\<close> the \<open>--\<close> and every remaining token are appended to \<open>unknown\<close>;
  with \<open>dest\<close> still \<open>operands\<close> the remaining tokens alone are appended to
  \<open>operands\<close>. No event is emitted and no value is bound for the remaining tokens, also
  when they are registered flags. In particular an input that starts with \<open>--\<close> returns
  all the other tokens as operands.
\<close>

theorem separator_stops_scanning:
  "parseOptionsLoop st (''--'' # rest) =
     Inr (case st_dest st of
            DestUnknown \<Rightarrow> st\<lparr>st_unknown := st_unknown st @ ''--'' # rest\<rparr>
          | DestOperands \<Rightarrow> st\<lparr>st_operands := st_operands st @ rest\<rparr>) \<and>
   parseOptions self (''--'' # rest) = Inr ((initialState self)\<lparr>st_operands := rest\<rparr>)"
proof
  show "parseOptionsLoop st (''--'' # rest) =
     Inr (case st_dest st of
            DestUnknown \<Rightarrow> st\<lparr>st_unknown := st_unknown st @ ''--'' # rest\<rparr>
          | DestOperands \<Rightarrow> st\<lparr>st_operands := st_operands st @ rest\<rparr>)"
    by (cases "st_dest st") (simp_all add: parseOptionsStep_def pushDest_def)
  show "parseOptions self (''--'' # rest) = Inr ((initialState self)\<lparr>st_operands := rest\<rparr>)"
    by (simp add: parseOptions_def initialState_def parseOptionsStep_def pushDest_def)
qed

theorem separator_stops_scanning_witness:
  "parseOptionsLoop ((initialState pepperCommand)\<lparr>st_unknown := [''--bogus''], st_dest := DestUnknown\<rparr>)
     [''--'', ''-p'', ''--chdir''] =
   Inr ((initialState pepperCommand)\<lparr>st_unknown := [''--bogus'', ''--'', ''-p'', ''--chdir''],
                                       st_dest := DestUnknown\<rparr>) \<and>
   parseOptionsLoop ((initialState pepperCommand)\<lparr>st_operands := [''sub'']\<rparr>)
     [''--'', ''-p'', ''--chdir''] =
   Inr ((initialState pepperCommand)\<lparr>st_operands := [''sub'', ''-p'', ''--chdir'']\<rparr>)"
  by (simp only: separator_stops_scanning) (simp add: initialState_def)





lemma pushDest_fields [simp]:
  "st_self (pushDest st xs) = st_self st"
  "st_dest (pushDest st xs) = st_dest st"
  "st_emitted (pushDest st xs) = st_emitted st"
  by (simp_all add: pushDest_def split: dest.splits)



lemma continueWith_Inr:
  "continueWith r args = Continue st' args' \<Longrightarrow> r = Inr st' \<and> args' = args"
  by (cases r) (simp_all add: continueWith_def)






text \<open>A token of an attached form is split, and part of it can come back as a token that
  was never in the input: \<open>-pxy\<close> emits \<open>-p\<close> and returns \<open>-xy\<close> as unknown.\<close>

lemma cluster_token_is_split:
  "(case parseOptions pepperCommand [''-pxy''] of
      Inl e \<Rightarrow> False
    | Inr st \<Rightarrow> st_operands st = [] \<and> st_unknown st = [''-xy''] \<and>
                st_emitted st = [(''option:pepper'', JUndefined)])"
  by code_simp



section \<open>The tokenizer leaves its input array alone\<close>












lemma absState_self [simp]: "st_self (absState s) = hp_self s"
  by (simp add: absState_def)














section \<open>Properties of the resolver\<close>

text \<open>
  C8, as stated, fails: \<open>_findCommand\<close> is one \<open>find\<close> over the children with the test
  \<open>name or alias\<close>. With \<open>remove\<close> (alias \<open>rm\<close>) registered before a command named
  \<open>rm\<close>, looking up \<open>rm\<close> returns \<open>remove\<close>, the alias match, not the exact-name
  match.
\<close>

theorem alias_before_name_counterexample:
  "findCommand [Command ((newCommand ''remove'')\<lparr>cmdAlias := Some ''rm''\<rparr>) [],
                Command (newCommand ''rm'') []] (Some ''rm'')
     = Some (Command ((newCommand ''remove'')\<lparr>cmdAlias := Some ''rm''\<rparr>) []) \<and>
   cmdName (newCommand ''rm'') = ''rm'' \<and>
   cmdName ((newCommand ''remove'')\<lparr>cmdAlias := Some ''rm''\<rparr>) \<noteq> ''rm''"
  by (simp add: findCommand_def newCommand_def)

text \<open>
  C8, amended: lookup of a non-empty string returns the first child in registration
  order whose name or alias is that string. A child matching by exact name is returned
  exactly when no child registered before it matches by name or by alias.
\<close>

theorem findCommand_first_match:
  assumes "n \<noteq> []"
  shows "findCommand cs (Some n) = Some c \<longleftrightarrow>
           (\<exists>i<length cs. cs ! i = c \<and>
              (cmdName (cmdData c) = n \<or> cmdAlias (cmdData c) = Some n) \<and>
              (\<forall>j<i. cmdName (cmdData (cs ! j)) \<noteq> n \<and> cmdAlias (cmdData (cs ! j)) \<noteq> Some n))"
  using assms by (auto simp: findCommand_def find_Some_iff)

theorem findCommand_first_match_witness:
  "''rm'' \<noteq> [] \<and>
   findCommand [Command (newCommand ''rm'') [],
                Command ((newCommand ''remove'')\<lparr>cmdAlias := Some ''rm''\<rparr>) []] (Some ''rm'')
     = Some (Command (newCommand ''rm'') [])"
proof -
  let ?cs = "[Command (newCommand ''rm'') [],
              Command ((newCommand ''remove'')\<lparr>cmdAlias := Some ''rm''\<rparr>) []]"
  have ne: "''rm'' \<noteq> []" by simp
  have "\<exists>i<length ?cs. ?cs ! i = Command (newCommand ''rm'') [] \<and>
          (cmdName (cmdData (Command (newCommand ''rm'') [])) = ''rm'' \<or>
           cmdAlias (cmdData (Command (newCommand ''rm'') [])) = Some ''rm'') \<and>
          (\<forall>j<i. cmdName (cmdData (?cs ! j)) \<noteq> ''rm'' \<and> cmdAlias (cmdData (?cs ! j)) \<noteq> Some ''rm'')"
    by (rule exI[of _ 0]) (simp add: newCommand_def)
  with findCommand_first_match[OF ne, of ?cs "Command (newCommand ''rm'') []"]
  show ?thesis by simp
qed


lemma stepKnown_options:
  "stepKnown option st args = Continue st' args' \<Longrightarrow> options (st_self st') = options (st_self st)"
  by (auto simp: stepKnown_def split: if_splits list.splits dest!: continueWith_Inr emitOption_Inr(1))

lemma stepCombo_options:
  "stepCombo option st arg args = Continue st' args' \<Longrightarrow> options (st_self st') = options (st_self st)"
  by (auto simp: stepCombo_def split: if_splits dest!: continueWith_Inr emitOption_Inr(1))






lemma checkMandatoryOptions_find:
  assumes "list_all (\<lambda>opt. mandatory opt \<longrightarrow>
                       (case attributeName opt of
                          Inl e \<Rightarrow> False
                        | Inr key \<Rightarrow> \<not> isl (getOptionValue cmd key))) opts"
  shows "checkMandatoryOptions cmd opts =
           (case find (unsetMandatory cmd) opts of
              None \<Rightarrow> Inr ()
            | Some opt \<Rightarrow> Inl (missingMandatoryOptionValue opt))"
  using assms
proof (induction opts)
  case Nil
  show ?case by simp
next
  case (Cons a opts)
  show ?case
  proof (cases "mandatory a")
    case False
    with Cons show ?thesis by (simp add: unsetMandatory_def)
  next
    case True
    with Cons.prems obtain key v where k: "attributeName a = Inr key" "getOptionValue cmd key = Inr v"
      by (cases "attributeName a"; cases "getOptionValue cmd (projr (attributeName a))") auto
    with True Cons show ?thesis by (simp add: unsetMandatory_def)
  qed
qed

lemma find_map_Pair:
  "find (\<lambda>(c, opt). P c opt) (map (Pair cmd) opts) = map_option (Pair cmd) (find (P cmd) opts)"
  by (induction opts) auto

lemma find_append: "find P (xs @ ys) = (case find P xs of None \<Rightarrow> find P ys | Some x \<Rightarrow> Some x)"
  by (induction xs) auto

lemma sweep_find:
  assumes "list_all keyedMandatory chain"
  shows "checkForMissingMandatoryOptions chain =
           (case find (\<lambda>(cmd, opt). unsetMandatory cmd opt) (sweepOrder chain) of
              None \<Rightarrow> Inr ()
            | Some (cmd, opt) \<Rightarrow> Inl (missingMandatoryOptionValue opt))"
  using assms
proof (induction chain)
  case Nil
  show ?case by (simp add: sweepOrder_def)
next
  case (Cons cmd chain)
  from Cons.prems
  have k: "list_all (\<lambda>opt. mandatory opt \<longrightarrow>
                       (case attributeName opt of
                          Inl e \<Rightarrow> False
                        | Inr key \<Rightarrow> \<not> isl (getOptionValue cmd key))) (options cmd)"
    by (simp add: keyedMandatory_def)
  from Cons.prems have rest: "list_all keyedMandatory chain"
    by simp
  have so: "sweepOrder (cmd # chain) = map (Pair cmd) (options cmd) @ sweepOrder chain"
    by (simp add: sweepOrder_def)
  show ?case
  proof (cases "find (unsetMandatory cmd) (options cmd)")
    case None
    with Cons.IH[OF rest] checkMandatoryOptions_find[OF k] show ?thesis
      by (simp add: so find_append find_map_Pair)
  next
    case (Some opt)
    with checkMandatoryOptions_find[OF k] show ?thesis
      by (simp add: so find_append find_map_Pair)
  qed
qed



lemma sweep_passed:
  assumes keyed: "list_all keyedMandatory chain"
      and ok: "checkForMissingMandatoryOptions chain = Inr ()"
  shows "list_all (\<lambda>(c, opt). \<not> unsetMandatory c opt) (sweepOrder chain)"
proof (cases "find (\<lambda>(c, opt). unsetMandatory c opt) (sweepOrder chain)")
  case None
  then show ?thesis by (auto simp: find_None_iff list_all_iff)
next
  case (Some p)
  with sweep_find[OF keyed] ok show ?thesis by (cases p) simp
qed

text \<open>Registration keeps the mandatory options keyed, when the key of a new mandatory
  option can be read.\<close>

lemma newCommand_keyedMandatory: "keyedMandatory (newCommand nm)"
  by (simp add: keyedMandatory_def newCommand_def)

lemma newOption_fresh [simp]:
  "mandatory (newOption fl desc) = False" "defaultValue (newOption fl desc) = JUndefined"
  by (simp_all add: newOption_def Let_def)

lemma optionEx_shape:
  assumes reg: "optionEx m fl desc fnArg dflt self = Inr self'"
  shows "storeOptionsAsProperties self' = storeOptionsAsProperties self \<and>
         (\<exists>d. options self' = options self @
                 [(newOption fl desc)\<lparr>mandatory := m, defaultValue := d\<rparr>])"
proof -
  let ?o = "(newOption fl desc)\<lparr>mandatory := m\<rparr>"
  let ?pre = "negate ?o \<or> optional ?o \<or> required ?o \<or> isBoolean (defaultOf fnArg dflt)"
  from optionEx_attributeName[OF reg]
  obtain name where nm: "attributeName (newOption fl desc) = Inr name" by blast
  define r1 where "r1 =
    (if ?pre \<and> negate ?o
     then (if findOption self (replacePrefix ''--no-'' ''--'' (long ?o)) \<noteq> None
           then getOptionValue self name else Inr (JBool True))
     else Inr (defaultOf fnArg dflt))"
  have dv: "?o\<lparr>defaultValue := JUndefined\<rparr> = ?o" by simp
  have eq: "optionEx m fl desc fnArg dflt self =
     (case r1 of
        Inl e \<Rightarrow> Inl e
      | Inr dflt1 \<Rightarrow>
          (case (if ?pre \<and> dflt1 \<noteq> JUndefined then setOptionValue self name dflt1
                 else Inr self) of
             Inl e \<Rightarrow> Inl e
           | Inr self1 \<Rightarrow>
               Inr (self1\<lparr>options := options self1 @
                                 [if ?pre \<and> dflt1 \<noteq> JUndefined
                                  then ?o\<lparr>defaultValue := dflt1\<rparr> else ?o],
                          listeners := listeners self1 @
                                 [(''option:'' @ optName ?o,
                                   OptionListener name (negate ?o) (coercionOf fnArg) dflt1)]\<rparr>)))"
    unfolding optionEx_def Let_def r1_def
    by (simp only: attributeName_mandatory nm sum.case)
  from reg eq obtain dflt1 where d: "r1 = Inr dflt1" by (cases r1) auto
  let ?assign = "?pre \<and> dflt1 \<noteq> JUndefined"
  from reg eq d obtain self1 where
    s1: "(if ?assign then setOptionValue self name dflt1 else Inr self) = Inr self1"
    and s': "self' = self1\<lparr>options := options self1 @
                                    [if ?assign then ?o\<lparr>defaultValue := dflt1\<rparr> else ?o],
                                 listeners := listeners self1 @
                                    [(''option:'' @ optName ?o,
                                      OptionListener name (negate ?o) (coercionOf fnArg) dflt1)]\<rparr>"
    by (cases "if ?assign then setOptionValue self name dflt1 else Inr self") auto
  have f: "options self1 = options self \<and>
           storeOptionsAsProperties self1 = storeOptionsAsProperties self"
    using s1 by (auto split: if_splits dest: setOptionValue_fields)
  show ?thesis
  proof (cases ?assign)
    case True
    with s' f show ?thesis by (intro conjI exI[of _ dflt1]) simp_all
  next
    case False
    with s' f dv show ?thesis by (intro conjI exI[of _ JUndefined]) simp_all
  qed
qed

lemma isl_getOptionValue_cong:
  "storeOptionsAsProperties b = storeOptionsAsProperties a \<Longrightarrow>
   isl (getOptionValue b key) = isl (getOptionValue a key)"
  using storeMembers_cong[of b a] by (simp add: getOptionValue_def)

lemma keyedMandatory_append:
  assumes sp: "storeOptionsAsProperties b = storeOptionsAsProperties a"
      and os: "options b = options a @ [opt]"
  shows "keyedMandatory b =
           (keyedMandatory a \<and>
            (mandatory opt \<longrightarrow>
               (case attributeName opt of
                  Inl e \<Rightarrow> False
                | Inr key \<Rightarrow> \<not> isl (getOptionValue a key))))"
proof -
  have sm: "isl (getOptionValue b key) = isl (getOptionValue a key)" for key
    using sp by (rule isl_getOptionValue_cong)
  show ?thesis
    unfolding keyedMandatory_def sm os by simp
qed

lemma optionEx_keyedMandatory:
  assumes reg: "optionEx m fl desc fnArg dflt self = Inr self'" and keyed: "keyedMandatory self"
      and free: "m \<longrightarrow> (\<exists>name. attributeName (newOption fl desc) = Inr name \<and>
                               \<not> isl (getOptionValue self name))"
  shows "keyedMandatory self'"
proof -
  have an: "attributeName (opt\<lparr>mandatory := b, defaultValue := d\<rparr>) = attributeName opt" for opt b d
    by (simp add: attributeName_def optName_def)
  from optionEx_shape[OF reg]
  obtain d where sp: "storeOptionsAsProperties self' = storeOptionsAsProperties self"
    and os: "options self' = options self @ [(newOption fl desc)\<lparr>mandatory := m, defaultValue := d\<rparr>]"
    by blast
  show ?thesis
    unfolding keyedMandatory_append[OF sp os] using keyed free by (auto simp: an)
qed

lemma version_keyedMandatory:
  "keyedMandatory self \<Longrightarrow> keyedMandatory (version str fl desc self)"
  by (subst keyedMandatory_append[where a = self and opt = "newOption fl desc"])
     (simp_all add: version_def Let_def)


















section \<open>Further properties of the resolver and the tokenizer\<close>

text \<open>
  X1: variadic absorption. With arguments declared \<open><a> <b...>\<close> (or \<open><a> [b...]\<close>)
  and at least two operands, \<open>a\<close> is bound to the first operand and \<open>b\<close> to the array
  of all the others.
\<close>

theorem variadic_absorption:
  "bindArgs [\<lparr>argRequired = True, argName = a, argVariadic = False\<rparr>,
             \<lparr>argRequired = r, argName = b, argVariadic = True\<rparr>] 0 2 (map ArgStr (x # y # ys))
     = Inr [ArgStr x, ArgArr (map ArgStr (y # ys))]"
  by (simp add: argIsNull_def setIndex_def)

text \<open>
  X2: with \<open>-p, --pepper\<close> boolean and \<open>-C, --chdir <path>\<close> taking a value, the input
  \<open>['-p', '--chdir', '/tmp', 'extra']\<close> gives operands \<open>['extra']\<close>, no unknown token,
  \<open>pepper\<close> bound to \<open>true\<close> and \<open>chdir\<close> to \<open>'/tmp'\<close>.
\<close>

theorem scenario_known_options:
  "(case parseOptions pepperCommand [''-p'', ''--chdir'', ''/tmp'', ''extra''] of
      Inl e \<Rightarrow> False
    | Inr st \<Rightarrow> st_operands st = [''extra''] \<and> st_unknown st = [] \<and>
                st_emitted st = [(''option:pepper'', JUndefined), (''option:chdir'', JStr ''/tmp'')] \<and>
                getOptionValue (st_self st) ''pepper'' = Inr (JBool True) \<and>
                getOptionValue (st_self st) ''chdir'' = Inr (JStr ''/tmp''))"
  by code_simp

text \<open>
  X3: \<open>['--unknown', 'uuu', 'op']\<close> against a command without that option gives no
  operand and all three tokens as unknown; resolved through a root with the child
  \<open>sub\<close>, \<open>['sub', '--unknown', 'uuu', 'op']\<close> aborts with \<open>unknownOption\<close> for
  \<open>--unknown\<close>.
\<close>

theorem scenario_unknown_option:
  "(case parseOptions (newCommand ''sub'') [''--unknown'', ''uuu'', ''op''] of
      Inl e \<Rightarrow> False
    | Inr st \<Rightarrow> st_operands st = [] \<and> st_unknown st = [''--unknown'', ''uuu'', ''op'']) \<and>
   (case parse 0 (\<lambda>p. p) subTree [''node'', ''prog'', ''sub'', ''--unknown'', ''uuu'', ''op''] of
      Inl e \<Rightarrow> e = unknownOptionError ''--unknown''
    | Inr out \<Rightarrow> False)"
  by code_simp

text \<open>
  X4: option values live on the command object, so a mandatory option whose canonical
  key names a method of the command is never reported missing: after
  \<open>requiredOption('-n, --name <n>')\<close> and \<open>action(...)\<close>, the sweep reads the method
  \<open>name\<close> under the key \<open>name\<close>, and the arguments \<open>['a']\<close> reach the action
  without \<open>--name\<close>.
\<close>

theorem mandatory_method_key_passes:
  "(case optionEx True ''-n, --name <n>'' ''the name'' (FnOther JUndefined) JUndefined
           (newCommand ''prog'') of
      Inl e \<Rightarrow> False
    | Inr c \<Rightarrow>
        map mandatory (options c) = [True] \<and>
        map attributeName (options c) = [Inr ''name''] \<and>
        getOptionValue c ''name'' = Inr JFunction \<and>
        checkForMissingMandatoryOptions [c] = Inr () \<and>
        (case parse 0 (\<lambda>p. p) (Command (c\<lparr>actionHandler := True\<rparr>) []) [''node'', ''prog'', ''a''] of
           Inr (ActionInvoked chain args) \<Rightarrow> args = [ArgStr ''a'']
         | _ \<Rightarrow> False))"
  by code_simp

end
